theory Spec2Isabelle
  imports Main "HOL-Library.Sublist" "HOL-Library.Char_ord" "HOL-Library.List_Lexorder"
begin

section \<open>The standup IRC bot (app.js)\<close>

text \<open>
  app.js wires an IRC client to a table of commands. Every listener and every command
  handler is modelled as a function from the bot's surroundings (\<open>env\<close>) and the
  event's arguments to the list of effects it performs, in order, together with the
  exception that ends it, if one does.

  Strings are \<open>char list\<close>s: a character is one of JavaScript's code units below 256
  (ASCII and Latin-1), and white space, line terminators, decimal digits and letter
  case are JavaScript's on that range. Text with a code unit from 256 on is outside
  the model.
\<close>

subsection \<open>Strings as JavaScript handles them\<close>

text \<open>\<open>\s\<close>, \<open>trim\<close> and \<open>parseInt\<close> skip white space and line terminators: tab, LF, VT,
  FF, CR, space and the no-break space U+00A0.\<close>

definition is_ws :: "char \<Rightarrow> bool" where
  "is_ws c = (of_char c \<in> {9, 10, 11, 12, 13, 32, 160 :: nat})"

text \<open>The regular expression's \<open>.\<close> matches every character but LF and CR.\<close>

definition is_line_terminator :: "char \<Rightarrow> bool" where
  "is_line_terminator c = (of_char c \<in> {10, 13 :: nat})"

definition is_digit :: "char \<Rightarrow> bool" where
  "is_digit c = (48 \<le> (of_char c :: nat) \<and> (of_char c :: nat) \<le> 57)"

definition digit_val :: "char \<Rightarrow> nat" where
  "digit_val c = of_char c - 48"

text \<open>\<open>toLowerCase\<close> moves A to Z and the Latin-1 capitals U+00C0 to U+00DE, the
  multiplication sign U+00D7 apart, 32 places up.\<close>

definition lower_char :: "char \<Rightarrow> char" where
  "lower_char c =
     (if (65 \<le> (of_char c :: nat) \<and> (of_char c :: nat) \<le> 90)
         \<or> (192 \<le> (of_char c :: nat) \<and> (of_char c :: nat) \<le> 222 \<and> (of_char c :: nat) \<noteq> 215)
      then char_of (of_char c + 32 :: nat) else c)"

definition toLowerCase :: "string \<Rightarrow> string" where
  "toLowerCase s = map lower_char s"

definition trim :: "string \<Rightarrow> string" where
  "trim s = rev (dropWhile is_ws (rev (dropWhile is_ws s)))"

text \<open>\<open>s.split(d)\<close> for a one-character separator: never empty, \<open>''.split(' ')\<close> is \<open>['']\<close>.\<close>

fun split_on :: "char \<Rightarrow> string \<Rightarrow> string list" where
  "split_on d [] = [[]]"
| "split_on d (c # cs) =
     (if c = d then [] # split_on d cs
      else (case split_on d cs of
              [] \<Rightarrow> [[c]]
            | w # ws \<Rightarrow> (c # w) # ws))"

text \<open>\<open>xs.join(sep)\<close> on an array of strings.\<close>

fun js_join :: "string \<Rightarrow> string list \<Rightarrow> string" where
  "js_join sep [] = []"
| "js_join sep [x] = x"
| "js_join sep (x # y # ys) = x @ sep @ js_join sep (y # ys)"

text \<open>\<open>s[0] === c\<close>: false on the empty string, whose \<open>s[0]\<close> is undefined.\<close>

fun first_is :: "char \<Rightarrow> string \<Rightarrow> bool" where
  "first_is c [] = False"
| "first_is c (x # xs) = (x = c)"

subsection \<open>Numbers\<close>

text \<open>
  A JavaScript number is a double. The numbers of this program are those \<open>parseInt\<close>
  gives and the ids the status service sends: NaN, the two infinities, and the doubles
  whose value is an integer, \<open>Num i\<close> for the double of value \<open>i\<close> (minus zero is \<open>Num 0\<close>:
  it prints as zero).
\<close>

datatype number = NaN | Num int | PosInfinity | NegInfinity

definition digit_char :: "nat \<Rightarrow> char" where
  "digit_char n = char_of (48 + n)"

fun show_nat :: "nat \<Rightarrow> string" where
  "show_nat n = (if n < 10 then [digit_char n] else show_nat (n div 10) @ [digit_char (n mod 10)])"

fun bit_length :: "nat \<Rightarrow> nat" where
  "bit_length n = (if n = 0 then 0 else Suc (bit_length (n div 2)))"

text \<open>The value of the double nearest to a natural number: the number itself below 2^53;
  from there on it is cut to its leading 53 bits, rounded to nearest with ties to the
  even neighbour; \<open>None\<close> when the rounded value reaches 2^1024 (the number is then
  infinite).\<close>

definition round_to_double :: "nat \<Rightarrow> nat option" where
  "round_to_double x =
     (if x < 2 ^ 53 then Some x
      else (let sh = bit_length x - 53;
                q = x div 2 ^ sh;
                r = x mod 2 ^ sh;
                half = 2 ^ (sh - 1);
                v = (if half < r \<or> (r = half \<and> odd q) then q + 1 else q) * 2 ^ sh
            in if 2 ^ 1024 \<le> v then None else Some v))"

definition number_of :: "bool \<Rightarrow> nat \<Rightarrow> number" where
  "number_of neg x =
     (case round_to_double x of
        None \<Rightarrow> if neg then NegInfinity else PosInfinity
      | Some v \<Rightarrow> Num (if neg then - int v else int v))"

text \<open>\<open>parseInt(s, 10)\<close>: leading white space, an optional sign, then the longest run of
  digits, read as a decimal numeral and rounded to a double; NaN when no digit is
  there.\<close>

definition parseInt :: "string \<Rightarrow> number" where
  "parseInt s =
     (let t = dropWhile is_ws s;
          neg = first_is CHR ''-'' t;
          u = (if first_is CHR ''-'' t \<or> first_is CHR ''+'' t then tl t else t);
          ds = takeWhile is_digit u
      in if ds = [] then NaN
         else number_of neg (foldl (\<lambda>a c. 10 * a + digit_val c) 0 ds))"

text \<open>
  A number as a string (under \<open>+\<close> with a string). For the double of value \<open>m\<close>,
  JavaScript prints the decimal with the fewest significant digits that still rounds
  to \<open>m\<close>, the one nearest to \<open>m\<close> among several (the one with the even last digit
  when two are as near): \<open>shortest_decimal m e\<close> looks for it among the multiples of
  \<open>10 ^ e\<close> next to \<open>m\<close>, the most zeros first. Up to 21 digits are written out, longer
  numbers in exponent notation.
\<close>

fun shortest_decimal :: "nat \<Rightarrow> nat \<Rightarrow> nat" where
  "shortest_decimal m 0 = m"
| "shortest_decimal m (Suc e) =
     (let p = 10 ^ Suc e;
          c1 = (m div p) * p;
          c2 = c1 + p;
          ok1 = (0 < c1 \<and> round_to_double c1 = Some m);
          ok2 = (round_to_double c2 = Some m)
      in if ok1 \<and> ok2
         then (if m - c1 < c2 - m then c1
               else if c2 - m < m - c1 then c2
               else if even (m div p) then c1 else c2)
         else if ok1 then c1
         else if ok2 then c2
         else shortest_decimal m e)"

definition show_double :: "nat \<Rightarrow> string" where
  "show_double m =
     (let ds = show_nat (shortest_decimal m (length (show_nat m)));
          n = length ds;
          sig = rev (dropWhile (\<lambda>c. c = CHR ''0'') (rev ds))
      in if n \<le> 21 then ds
         else (case sig of
                 [] \<Rightarrow> ds
               | d # more \<Rightarrow>
                   (if more = [] then [d] else d # CHR ''.'' # more) @ ''e+'' @ show_nat (n - 1)))"

fun number_to_string :: "number \<Rightarrow> string" where
  "number_to_string NaN = ''NaN''"
| "number_to_string PosInfinity = ''Infinity''"
| "number_to_string NegInfinity = ''-Infinity''"
| "number_to_string (Num i) =
     (if i < 0 then CHR ''-'' # show_double (nat (- i)) else show_double (nat i))"

subsection \<open>JavaScript values carried by service responses\<close>

datatype error = TypeError | SyntaxError

datatype jsval =
    JUndefined
  | JNull
  | JBool bool
  | JNum number
  | JStr string
  | JObj "(string \<times> jsval) list"

text \<open>\<open>v[k]\<close> for the two properties the handlers read, \<open>error\<close> and \<open>id\<close>: a TypeError
  on undefined and null, undefined on a primitive and on an object without the key.\<close>

fun get_prop :: "jsval \<Rightarrow> string \<Rightarrow> error + jsval" where
  "get_prop JUndefined k = Inl TypeError"
| "get_prop JNull k = Inl TypeError"
| "get_prop (JObj kvs) k = (case map_of kvs k of None \<Rightarrow> Inr JUndefined | Some v \<Rightarrow> Inr v)"
| "get_prop v k = Inr JUndefined"

fun truthy :: "jsval \<Rightarrow> bool" where
  "truthy JUndefined = False"
| "truthy JNull = False"
| "truthy (JBool b) = b"
| "truthy (JNum n) = (n \<noteq> NaN \<and> n \<noteq> Num 0)"
| "truthy (JStr s) = (s \<noteq> [])"
| "truthy (JObj kvs) = True"

text \<open>The string a value becomes under \<open>+\<close> with a string.\<close>

fun to_str :: "jsval \<Rightarrow> string" where
  "to_str JUndefined = ''undefined''"
| "to_str JNull = ''null''"
| "to_str (JBool b) = (if b then ''true'' else ''false'')"
| "to_str (JNum n) = number_to_string n"
| "to_str (JStr s) = s"
| "to_str (JObj kvs) = ''[object Object]''"

text \<open>The Async Outcome of a call to the status service: the \<open>ok\<close> event with its data,
  the \<open>error\<close> event with a status code and its data, or no event at all.\<close>

datatype response = RespOk jsval | RespError int jsval | NoResponse

subsection \<open>Effects and results\<close>

record irc_error =
  rawCommand :: string
  stack :: "string option"

datatype effect =
    Say string string
  | Action string string
  | Join string
  | Part string
  | LogInfo string
  | LogError string
  | LogErrorObject irc_error
  | PgQuery string "string list"
  | CheckUser string
  | AuthNotice string string
  | StatusDelete number string
  | StatusCreate string string string
  | UserUpdate string string string string

text \<open>An exception is raised either in the turn of the listener itself, or later, in the
  turn of a callback the listener registered.\<close>

datatype raised = Raised error | RaisedLater error

type_synonym result = "effect list \<times> raised option"

fun later :: "result \<Rightarrow> result" where
  "later (effs, None) = (effs, None)"
| "later (effs, Some (Raised e)) = (effs, Some (RaisedLater e))"
| "later (effs, Some (RaisedLater e)) = (effs, Some (RaisedLater e))"

fun after :: "effect list \<Rightarrow> result \<Rightarrow> result" where
  "after pre (effs, r) = (pre @ effs, r)"

subsection \<open>The bot's surroundings\<close>

text \<open>
  \<open>realNick\<close> is \<open>config.irc.realNick\<close>; \<open>pg_client\<close> says whether the database client
  exists; \<open>chans\<close> are the keys of \<open>irc_client.chans\<close>; \<open>shuffle_pick\<close> is the index of the
  reply that \<open>_.shuffle\<close> puts first; \<open>parseArgs\<close> is \<open>utils.parseArgs\<close>, \<open>JSON_parse\<close> is
  \<open>JSON.parse\<close> (\<open>None\<close> where it raises a SyntaxError); \<open>trust\<close> is the Trust Decision the
  authorization manager reaches for a nickname; the last three are the outcomes of the
  calls to the status service.
\<close>

record env =
  realNick :: string
  pg_client :: bool
  chans :: "string list"
  hostname :: string
  shuffle_pick :: nat
  parseArgs :: "string list \<Rightarrow> string list"
  JSON_parse :: "string \<Rightarrow> jsval option"
  trust :: "string \<Rightarrow> bool"
  status_delete :: "number \<Rightarrow> string \<Rightarrow> response"
  status_create :: "string \<Rightarrow> string \<Rightarrow> string \<Rightarrow> response"
  user_update :: "string \<Rightarrow> string \<Rightarrow> string \<Rightarrow> string \<Rightarrow> response"

text \<open>
  Modelled from the spec: \<open>utils.ifAuthorized\<close> is not under src/. The dispatcher's
  authorization gate calls the Authorization Manager's identity check and runs the
  handler's body only if the resulting Trust Decision is true; otherwise the command
  silently does not execute. The body runs later, from the callback of the check.
\<close>

definition ifAuthorized :: "env \<Rightarrow> string \<Rightarrow> string \<Rightarrow> result \<Rightarrow> result" where
  "ifAuthorized E user channel body =
     (if trust E user then after [CheckUser user] (later body) else ([CheckUser user], None))"

text \<open>
  Modelled from the spec: \<open>utils.parseArgs\<close> is not under src/. On a sequence of plain
  tokens (no quoting) the Argument Parser returns the same sequence unchanged; this
  instance is used on such sequences only.
\<close>

definition parseArgs_plain :: "string list \<Rightarrow> string list" where
  "parseArgs_plain tokens = tokens"

subsection \<open>The command handlers\<close>

datatype command =
    Announce | Botsnack | Bye | Hostname | Chanlist | Delete | Goto | Help | Ping
  | Status | Trust | Update | Default

definition announce_func :: "env \<Rightarrow> string \<Rightarrow> string \<Rightarrow> string \<Rightarrow> string list \<Rightarrow> result" where
  "announce_func E user channel message args =
     (map (\<lambda>chan. Say chan (js_join '' '' args)) (filter (\<lambda>chan. chan \<noteq> channel) (chans E)), None)"

definition replies :: "string \<Rightarrow> string list" where
  "replies user =
     [''Yummy!'', ''Thanks, '' @ user @ ''!'', ''My favorite!'', ''Can I have another?'', ''Tasty!'']"

definition botsnack_func :: "env \<Rightarrow> string \<Rightarrow> string \<Rightarrow> string \<Rightarrow> string list \<Rightarrow> result" where
  "botsnack_func E user channel message args =
     ([Say channel (replies user ! (shuffle_pick E mod 5))], None)"

definition bye_func :: "env \<Rightarrow> string \<Rightarrow> string \<Rightarrow> result" where
  "bye_func E user channel =
     ([Say channel ''Bye!'', Part channel]
        @ (if pg_client E then [PgQuery ''DELETE FROM channels WHERE id=$1'' [channel]] else []),
      None)"

definition hostname_func :: "env \<Rightarrow> string \<Rightarrow> string \<Rightarrow> result" where
  "hostname_func E user channel = ([Say channel (''I'm running on '' @ hostname E)], None)"

definition chanlist_func :: "env \<Rightarrow> string \<Rightarrow> string \<Rightarrow> result" where
  "chanlist_func E user channel =
     ([Say channel ''I'm currently in:'', Say channel (js_join '', '' (sort (chans E)))], None)"

text \<open>The reply to a failure that is not a refusal: the server's \<open>error\<close> property is
  quoted when it is truthy.\<close>

definition failure_text :: "jsval \<Rightarrow> string" where
  "failure_text detail =
     (if truthy detail
      then ''I'm a failure, I couldn't do it.'' @ '' The server said: '' @ [CHR 0x22]
             @ to_str detail @ [CHR 0x22]
      else ''I'm a failure, I couldn't do it.'')"

text \<open>The \<open>error\<close> callback of \<open>delete\<close>: \<open>JSON.parse(data)\<close> comes first.\<close>

definition delete_on_error :: "env \<Rightarrow> string \<Rightarrow> int \<Rightarrow> jsval \<Rightarrow> result" where
  "delete_on_error E channel code data =
     (case JSON_parse E (to_str data) of
        None \<Rightarrow> ([], Some (Raised SyntaxError))
      | Some parsed \<Rightarrow>
          if code = 403
          then ([Say channel ''You don't have permission to do that. Did you post that status?''],
                None)
          else (case get_prop parsed ''error'' of
                  Inl e \<Rightarrow> ([], Some (Raised e))
                | Inr detail \<Rightarrow> ([Say channel (failure_text detail)], None)))"

text \<open>The body \<open>delete\<close> hands to \<open>utils.ifAuthorized\<close>.\<close>

definition delete_body :: "env \<Rightarrow> string \<Rightarrow> string \<Rightarrow> string list \<Rightarrow> result" where
  "delete_body E user channel args =
     (case args of
        [] \<Rightarrow> ([], Some (Raised TypeError))
      | a # _ \<Rightarrow>
          (let id = parseInt (if first_is CHR ''#'' a then tl a else a)
           in if id = NaN
              then ([Say channel ([CHR 0x22] @ a @ [CHR 0x22] @ '' '' @ ''is not a valid status ID.'')],
                    None)
              else after [StatusDelete id user]
                     (case status_delete E id user of
                        NoResponse \<Rightarrow> ([], None)
                      | RespOk data \<Rightarrow>
                          ([Say channel (''Ok, status #'' @ number_to_string id @ '' is no more!'')],
                           None)
                      | RespError code data \<Rightarrow> later (delete_on_error E channel code data))))"

definition delete_func :: "env \<Rightarrow> string \<Rightarrow> string \<Rightarrow> string \<Rightarrow> string list \<Rightarrow> result" where
  "delete_func E user channel message args =
     ifAuthorized E user channel (delete_body E user channel args)"

definition goto_func :: "env \<Rightarrow> string \<Rightarrow> string \<Rightarrow> string \<Rightarrow> string list \<Rightarrow> result" where
  "goto_func E user channel message args =
     (case args of
        [] \<Rightarrow> ([], Some (Raised TypeError))
      | a # _ \<Rightarrow>
          (let join = (if \<not> first_is CHR ''#'' a then CHR ''#'' # a else a)
           in ((if join \<noteq> [] then [Join join] else [])
                 @ (if pg_client E
                    then [PgQuery ''INSERT INTO channels(id, invited_by) values($1, $2)'' [join, user]]
                    else []),
               None)))"

definition ping_func :: "env \<Rightarrow> string \<Rightarrow> string \<Rightarrow> string \<Rightarrow> string list \<Rightarrow> result" where
  "ping_func E user channel message args = ([Say channel ''Pong!''], None)"

text \<open>The callbacks of \<open>status\<close>. The \<open>error\<close> callback looks at neither argument.\<close>

definition status_on_ok :: "string \<Rightarrow> jsval \<Rightarrow> result" where
  "status_on_ok channel data =
     (case get_prop data ''id'' of
        Inl e \<Rightarrow> ([], Some (Raised e))
      | Inr i \<Rightarrow> ([Say channel (''Ok, submitted status #'' @ to_str i)], None))"

definition status_on_error :: "string \<Rightarrow> int \<Rightarrow> jsval \<Rightarrow> result" where
  "status_on_error channel err data = ([Say channel ''Uh oh, something went wrong.''], None)"

definition status_body :: "env \<Rightarrow> string \<Rightarrow> string \<Rightarrow> string list \<Rightarrow> result" where
  "status_body E user channel args =
     (case args of
        [] \<Rightarrow> ([], Some (Raised TypeError))
      | a # rest \<Rightarrow>
          (let project = (if first_is CHR ''#'' a then tl a else a);
               status = js_join '' '' rest
           in after [StatusCreate user project status]
                (case status_create E user project status of
                   NoResponse \<Rightarrow> ([], None)
                 | RespOk data \<Rightarrow> later (status_on_ok channel data)
                 | RespError err data \<Rightarrow> later (status_on_error channel err data))))"

definition status_func :: "env \<Rightarrow> string \<Rightarrow> string \<Rightarrow> string \<Rightarrow> string list \<Rightarrow> result" where
  "status_func E user channel message args =
     ifAuthorized E user channel (status_body E user channel args)"

text \<open>\<open>trust\<close> hands the whole argument array to \<open>authman.checkUser\<close> and prints it with
  \<open>+\<close>, which joins its elements with commas. The Authorization Manager (auth.js, not
  under src/) answers with the Trust Decision.\<close>

definition trust_func :: "env \<Rightarrow> string \<Rightarrow> string \<Rightarrow> string \<Rightarrow> string list \<Rightarrow> result" where
  "trust_func E user channel message args =
     (let who = js_join '','' args
      in ([CheckUser who,
           Say channel ((if trust E who then ''I trust '' else ''I don't trust '') @ who)],
          None))"

text \<open>The \<open>error\<close> callback of \<open>update\<close>: \<open>data.error\<close> is read from the event's data as it
  comes.\<close>

definition update_on_error :: "string \<Rightarrow> int \<Rightarrow> jsval \<Rightarrow> result" where
  "update_on_error channel code data =
     (if code = 403
      then ([Say channel ''You don't have permission to do that.''], None)
      else (case get_prop data ''error'' of
              Inl e \<Rightarrow> ([], Some (Raised e))
            | Inr detail \<Rightarrow> ([Say channel (failure_text detail)], None)))"

text \<open>\<open>args[i]\<close>, undefined (\<open>None\<close>) past the end; a string is truthy when it is not empty.\<close>

definition arg_at :: "string list \<Rightarrow> nat \<Rightarrow> string option" where
  "arg_at args i = (if i < length args then Some (args ! i) else None)"

fun str_truthy :: "string option \<Rightarrow> bool" where
  "str_truthy None = False"
| "str_truthy (Some s) = (s \<noteq> [])"

definition update_body :: "env \<Rightarrow> string \<Rightarrow> string \<Rightarrow> string list \<Rightarrow> result" where
  "update_body E user channel args =
     (case (arg_at args 0, arg_at args 1) of
        (Some what, Some val) \<Rightarrow>
          (let who = (case arg_at args 2 of
                        None \<Rightarrow> user
                      | Some w \<Rightarrow> if w = [] then user else w)
           in if what \<noteq> [] \<and> val \<noteq> []
              then after [UserUpdate user what val who]
                     (case user_update E user what val who of
                        NoResponse \<Rightarrow> ([], None)
                      | RespOk data \<Rightarrow> ([Action channel ''updates some stuff!''], None)
                      | RespError code data \<Rightarrow> later (update_on_error channel code data))
              else ([], None))
      | _ \<Rightarrow> ([], None))"

definition update_func :: "env \<Rightarrow> string \<Rightarrow> string \<Rightarrow> string \<Rightarrow> string list \<Rightarrow> result" where
  "update_func E user channel message args =
     ifAuthorized E user channel (update_body E user channel args)"

definition default_func :: "env \<Rightarrow> string \<Rightarrow> string \<Rightarrow> string \<Rightarrow> result" where
  "default_func E user channel message = ([Say channel (user @ '': Huh? Try !help.'')], None)"

subsection \<open>The command table\<close>

text \<open>The keys of \<open>commands\<close> in the order of the source (the literal writes \<open>bye\<close> twice,
  with the same descriptor), and each descriptor's \<open>help\<close> and \<open>usage\<close>.\<close>

definition commands :: "(string \<times> command) list" where
  "commands =
     [(''announce'', Announce), (''botsnack'', Botsnack), (''bye'', Bye),
      (''hostname'', Hostname), (''chanlist'', Chanlist), (''delete'', Delete),
      (''goto'', Goto), (''help'', Help), (''ping'', Ping), (''status'', Status),
      (''trust'', Trust), (''update'', Update), (''default'', Default)]"

fun help_of :: "command \<Rightarrow> string option" where
  "help_of Announce = Some ''Broadcast a message in all other channels.''"
| "help_of Botsnack = None"
| "help_of Bye = Some ''Ask the bot to leave the channel.''"
| "help_of Hostname = Some ''Ask the bot where it is.''"
| "help_of Chanlist = Some ''Get a list of channels that I am in.''"
| "help_of Delete = Some ''Delete a status by id.''"
| "help_of Goto = Some ''Tell the bot to join a channel.reg   ''"
| "help_of Help = Some ''This help message.''"
| "help_of Ping = Some ''A simple presence check.''"
| "help_of Status = None"
| "help_of Trust = Some ''Check a user's authorization status.''"
| "help_of Update = Some ''Update the user's settings.''"
| "help_of Default = None"

fun usage_of :: "command \<Rightarrow> string option" where
  "usage_of Announce = Some ''<message>''"
| "usage_of Delete = Some ''<id>''"
| "usage_of Goto = Some ''<channel>''"
| "usage_of Status = Some ''<project> status message''"
| "usage_of Trust = Some ''<user>''"
| "usage_of Update = Some ''<name|email|github_handle> <value> [<user>]''"
| "usage_of c = None"

text \<open>\<open>help\<close> walks the sorted keys and prints a line for every descriptor with a
  \<open>help\<close> field.\<close>

definition help_line :: "string \<Rightarrow> string \<times> command \<Rightarrow> effect list" where
  "help_line channel kc =
     (case help_of (snd kc) of
        None \<Rightarrow> []
      | Some h \<Rightarrow>
          [Say channel (js_join '' ''
             ([CHR ''!'' # fst kc]
                @ (case usage_of (snd kc) of None \<Rightarrow> [] | Some u \<Rightarrow> [u])
                @ [''- '' @ h]))])"

definition help_func :: "env \<Rightarrow> string \<Rightarrow> string \<Rightarrow> result" where
  "help_func E user channel =
     (Say channel ''Available commands:'' # concat (map (help_line channel) (sort_key fst commands)),
      None)"

text \<open>\<open>cmd.func(user, channel, message, args)\<close> for a descriptor of the table.\<close>

fun func :: "env \<Rightarrow> command \<Rightarrow> string \<Rightarrow> string \<Rightarrow> string \<Rightarrow> string list \<Rightarrow> result" where
  "func E Announce user channel message args = announce_func E user channel message args"
| "func E Botsnack user channel message args = botsnack_func E user channel message args"
| "func E Bye user channel message args = bye_func E user channel"
| "func E Hostname user channel message args = hostname_func E user channel"
| "func E Chanlist user channel message args = chanlist_func E user channel"
| "func E Delete user channel message args = delete_func E user channel message args"
| "func E Goto user channel message args = goto_func E user channel message args"
| "func E Help user channel message args = help_func E user channel"
| "func E Ping user channel message args = ping_func E user channel message args"
| "func E Status user channel message args = status_func E user channel message args"
| "func E Trust user channel message args = trust_func E user channel message args"
| "func E Update user channel message args = update_func E user channel message args"
| "func E Default user channel message args = default_func E user channel message"

text \<open>\<open>commands\<close> is an object literal, so \<open>commands[name]\<close> also finds what every
  object inherits from \<open>Object.prototype\<close>: functions, and the prototype itself under
  \<open>__proto__\<close>. They are truthy and have no \<open>func\<close> property.\<close>

definition object_prototype_properties :: "string list" where
  "object_prototype_properties =
     [''constructor'', ''hasOwnProperty'', ''isPrototypeOf'', ''propertyIsEnumerable'',
      ''toLocaleString'', ''toString'', ''valueOf'', ''__proto__'', ''__defineGetter__'',
      ''__defineSetter__'', ''__lookupGetter__'', ''__lookupSetter__'']"

datatype callee = Descriptor command | Inherited string

text \<open>\<open>commands[cmd_name] || commands['default']\<close>.\<close>

definition lookup_command :: "string \<Rightarrow> callee" where
  "lookup_command cmd_name =
     (case map_of commands cmd_name of
        Some c \<Rightarrow> Descriptor c
      | None \<Rightarrow>
          if cmd_name \<in> set object_prototype_properties then Inherited cmd_name
          else Descriptor Default)"

text \<open>Calling \<open>cmd.func\<close>: a TypeError when \<open>cmd\<close> has no such property.\<close>

fun call_func :: "env \<Rightarrow> callee \<Rightarrow> string \<Rightarrow> string \<Rightarrow> string \<Rightarrow> string list \<Rightarrow> result" where
  "call_func E (Descriptor c) user channel message args = func E c user channel message args"
| "call_func E (Inherited p) user channel message args = ([], Some (Raised TypeError))"

subsection \<open>The listeners\<close>

text \<open>
  The \<open>message\<close> listener builds \<open>new RegExp('^' + nick + '[:,]\\s*?(.*)$')\<close> from the
  escaped nickname and executes it on the message.

  Modelled from the spec: \<open>utils.escapeRegExp\<close> is not under src/. A message is in scope
  only if it begins with the bot's current network-assigned display name, so the
  escaped nickname matches the nickname itself, character for character.
\<close>

fun strip_literal :: "string \<Rightarrow> string \<Rightarrow> string option" where
  "strip_literal [] s = Some s"
| "strip_literal (p # ps) [] = None"
| "strip_literal (p # ps) (c # cs) = (if p = c then strip_literal ps cs else None)"

text \<open>\<open>\s*?(.*)$\<close>: the lazy \<open>\s*?\<close> takes the fewest white-space characters after which
  no line terminator is left, since \<open>.\<close> matches none and \<open>$\<close> is the end of the input;
  the result is what the group captures.\<close>

fun lazy_ws_rest :: "string \<Rightarrow> string option" where
  "lazy_ws_rest [] = Some []"
| "lazy_ws_rest (c # cs) =
     (if list_all (\<lambda>x. \<not> is_line_terminator x) (c # cs) then Some (c # cs)
      else if is_ws c then lazy_ws_rest cs
      else None)"

definition targetMessageRegex_exec :: "string \<Rightarrow> string \<Rightarrow> string option" where
  "targetMessageRegex_exec nick message =
     (case strip_literal nick message of
        None \<Rightarrow> None
      | Some [] \<Rightarrow> None
      | Some (sep # rest) \<Rightarrow>
          if sep = CHR '':'' \<or> sep = CHR '','' then lazy_ws_rest rest else None)"

text \<open>What the listener calls: the value looked up, and the four arguments.\<close>

datatype invocation = Invocation callee string string string "string list"

fun invoke :: "env \<Rightarrow> invocation \<Rightarrow> result" where
  "invoke E (Invocation cmd user channel message args) = call_func E cmd user channel message args"

definition dispatch :: "env \<Rightarrow> string \<Rightarrow> string \<Rightarrow> string \<Rightarrow> invocation option" where
  "dispatch E user channel message =
     (case targetMessageRegex_exec (realNick E) message of
        None \<Rightarrow> None
      | Some m \<Rightarrow>
          (let message = trim m
           in if first_is CHR ''!'' message
              then (let cmd_name = tl (hd (split_on CHR '' '' message));
                        args = parseArgs E (tl (split_on CHR '' '' message))
                    in Some (Invocation (lookup_command cmd_name) user channel message args))
              else if toLowerCase message = ''botsnack''
              then Some (Invocation (Descriptor Botsnack) user channel message [])
              else Some (Invocation (Descriptor Status) user channel message [channel, message])))"

text \<open>The listener has no \<open>try\<close>: what the call does and raises is what the listener does
  and raises.\<close>

definition on_message :: "env \<Rightarrow> string \<Rightarrow> string \<Rightarrow> string \<Rightarrow> result" where
  "on_message E user channel message =
     (case dispatch E user channel message of
        None \<Rightarrow> ([], None)
      | Some i \<Rightarrow> invoke E i)"

definition on_error :: "irc_error \<Rightarrow> result" where
  "on_error err =
     (if rawCommand err \<noteq> ''421'' then ([], None)
      else ([LogErrorObject err] @ (case stack err of None \<Rightarrow> [] | Some st \<Rightarrow> [LogError st]),
            None))"

definition on_invite :: "env \<Rightarrow> string \<Rightarrow> string \<Rightarrow> result" where
  "on_invite E channel from =
     after [LogInfo (''Invited to '' @ channel @ '' by '' @ from @ ''.'')]
       (call_func E (Descriptor Goto) from channel [] [channel])"

text \<open>\<open>commands['bye'](user, channel)\<close> applies the descriptor itself, an object with
  the fields \<open>help\<close> and \<open>func\<close>: applying a value that is not a function is a
  TypeError. (The \<open>invite\<close> listener calls \<open>commands.goto.func\<close>.)\<close>

definition apply_descriptor :: "env \<Rightarrow> command \<Rightarrow> string \<Rightarrow> string \<Rightarrow> result" where
  "apply_descriptor E c user channel = ([], Some (Raised TypeError))"

definition on_kick :: "env \<Rightarrow> string \<Rightarrow> string \<Rightarrow> string \<Rightarrow> result" where
  "on_kick E channel user by =
     (if user = realNick E
      then after [LogInfo (''Kicked from '' @ channel @ '' by '' @ by @ ''.'')]
             (apply_descriptor E Bye user channel)
      else ([], None))"

text \<open>The \<open>notice\<close> listener; \<open>from\<close> is \<open>None\<close> when the notice has no source
  (\<open>undefined\<close>). \<open>authman.notice\<close> (auth.js, not under src/) is recorded as an effect.\<close>

definition on_notice :: "env \<Rightarrow> string option \<Rightarrow> string \<Rightarrow> string \<Rightarrow> result" where
  "on_notice E from to text =
     (let logged = (case from of None \<Rightarrow> [LogInfo (''Service Notice: '' @ text)] | Some f \<Rightarrow> []);
          from = toLowerCase (case from of None \<Rightarrow> [] | Some f \<Rightarrow> f)
      in (logged @ (if from = ''nickserv'' then [AuthNotice from text] else []), None))"

subsection \<open>A concrete bot\<close>

text \<open>The bot is called \<open>bot\<close>, has no database, trusts everyone, and its status service
  never answers; \<open>JSON.parse\<close> is given on the three texts the examples use.\<close>

definition JSON_parse0 :: "string \<Rightarrow> jsval option" where
  "JSON_parse0 s =
     (if s = ''{}'' then Some (JObj [])
      else if s = ''null'' then Some JNull
      else if s = ''{'' @ [CHR 0x22] @ ''error'' @ [CHR 0x22] @ '': '' @ [CHR 0x22] @ ''No such status''
                 @ [CHR 0x22] @ ''}''
      then Some (JObj [(''error'', JStr ''No such status'')])
      else None)"

definition bot :: env where
  "bot =
     \<lparr> realNick = ''bot'', pg_client = False, chans = [''#standup''], hostname = ''localhost'',
       shuffle_pick = 0, parseArgs = parseArgs_plain, JSON_parse = JSON_parse0,
       trust = (\<lambda>nick. True),
       status_delete = (\<lambda>i user. NoResponse),
       status_create = (\<lambda>user project status. NoResponse),
       user_update = (\<lambda>user what val who. NoResponse) \<rparr>"


section \<open>Properties\<close>

subsection \<open>The address pattern\<close>

lemma strip_literal_Some: "strip_literal p s = Some r \<Longrightarrow> s = p @ r"
  by (induction p s rule: strip_literal.induct) (auto split: if_splits)

lemma strip_literal_append: "strip_literal p (p @ r) = Some r"
  by (induction p) auto

lemma lazy_ws_rest_plain:
  "list_all (\<lambda>x. \<not> is_line_terminator x) s \<Longrightarrow> lazy_ws_rest s = Some s"
  by (cases s) auto

lemma regex_match_prefix:
  assumes "targetMessageRegex_exec nick message = Some m"
  shows "\<exists>sep rest. (sep = CHR '':'' \<or> sep = CHR '','') \<and> message = nick @ sep # rest"
proof -
  from assms obtain sep rest where s: "strip_literal nick message = Some (sep # rest)"
    and sep: "sep = CHR '':'' \<or> sep = CHR '',''"
    by (auto simp: targetMessageRegex_exec_def split: option.splits list.splits if_splits)
  from strip_literal_Some [OF s] sep show ?thesis by blast
qed

text \<open>A message that starts with the nickname and a separator, and holds no line
  terminator (none reaches the bot over IRC), matches; the group captures all that
  follows the separator.\<close>

lemma addressed_message_matches:
  assumes "sep = CHR '':'' \<or> sep = CHR '',''"
    and "list_all (\<lambda>x. \<not> is_line_terminator x) rest"
  shows "targetMessageRegex_exec nick (nick @ sep # rest) = Some rest"
  using assms by (auto simp: targetMessageRegex_exec_def strip_literal_append lazy_ws_rest_plain)

text \<open>
  C1. A message that does not begin with the bot's nickname followed by \<open>:\<close> or \<open>,\<close> is
  ignored entirely: the dispatcher calls nothing, and the listener performs no effect
  (so no reply) and raises nothing. The optional white space of the pattern asks
  nothing of the message.
\<close>

theorem unaddressed_message_ignored:
  assumes "\<not> (\<exists>sep rest. (sep = CHR '':'' \<or> sep = CHR '','') \<and> message = realNick E @ sep # rest)"
  shows "dispatch E user channel message = None \<and> on_message E user channel message = ([], None)"
proof -
  have "targetMessageRegex_exec (realNick E) message = None"
  proof (cases "targetMessageRegex_exec (realNick E) message")
    case None
    then show ?thesis .
  next
    case (Some m)
    from regex_match_prefix [OF Some] assms show ?thesis by blast
  qed
  then show ?thesis by (simp add: dispatch_def on_message_def)
qed

theorem unaddressed_message_ignored_witness:
  "dispatch bot ''alice'' ''#standup'' ''hello everyone'' = None
   \<and> on_message bot ''alice'' ''#standup'' ''hello everyone'' = ([], None)"
proof -
  have h: "\<not> (\<exists>sep rest. (sep = CHR '':'' \<or> sep = CHR '','')
             \<and> ''hello everyone'' = realNick bot @ sep # rest)"
    by (simp add: bot_def)
  from unaddressed_message_ignored [OF h] show ?thesis .
qed

subsection \<open>Exceptions raised by handlers\<close>

text \<open>
  C2, as the code has it. The \<open>message\<close> listener has no \<open>try\<close> around the call of the
  handler: when the handler of an addressed message raises synchronously, the
  listener ends with that same exception, and its effects are the handler's alone, so
  the dispatcher logs nothing and swallows nothing.
\<close>

theorem handler_raise_propagates:
  assumes "dispatch E user channel message = Some i"
    and "invoke E i = (effs, Some (Raised e))"
  shows "on_message E user channel message = (effs, Some (Raised e))"
  using assms by (simp add: on_message_def)

theorem handler_raise_propagates_witness:
  "on_message bot ''alice'' ''#standup'' ''bot: !goto'' = ([], Some (Raised TypeError))"
proof -
  have d: "dispatch bot ''alice'' ''#standup'' ''bot: !goto''
     = Some (Invocation (Descriptor Goto) ''alice'' ''#standup'' ''!goto'' [])"
    by code_simp
  have i: "invoke bot (Invocation (Descriptor Goto) ''alice'' ''#standup'' ''!goto'' [])
     = ([], Some (Raised TypeError))"
    by code_simp
  from handler_raise_propagates [OF d i] show ?thesis .
qed

text \<open>
  Against C2 as stated: \<open>bot: !goto\<close> is addressed to the bot and routed to \<open>goto\<close> with
  no argument; the handler raises a TypeError, and the listener ends with it, with no
  log entry.
\<close>

theorem handler_raise_not_caught_counterexample:
  "dispatch bot ''alice'' ''#standup'' ''bot: !goto''
     = Some (Invocation (Descriptor Goto) ''alice'' ''#standup'' ''!goto'' [])
   \<and> invoke bot (Invocation (Descriptor Goto) ''alice'' ''#standup'' ''!goto'' [])
     = ([], Some (Raised TypeError))
   \<and> on_message bot ''alice'' ''#standup'' ''bot: !goto'' = ([], Some (Raised TypeError))"
  by code_simp

subsection \<open>Replies to a failed call of the status service\<close>




lemma later_replied: "later (effs, None) = (effs, None)"
  by simp




text \<open>Reading a property fails only on undefined and null.\<close>

lemma get_prop_readable:
  assumes "v \<noteq> JUndefined" and "v \<noteq> JNull"
  shows "\<exists>d. get_prop v k = Inr d"
  using assms by (cases v) (auto split: option.splits)




subsection \<open>Deleting with an id that is not a number\<close>

text \<open>\<open>parseInt\<close> skips a leading no-break space, and a numeral beyond 2^53 gives the
  nearest double.\<close>

lemma parseInt_skips_no_break_space: "parseInt (CHR 0xA0 # ''12'') = Num 12"
  by (simp add: parseInt_def number_of_def round_to_double_def is_ws_def is_digit_def digit_val_def)

lemma parseInt_rounds_to_double: "parseInt ''9007199254740993'' = Num 9007199254740992"
  by (simp add: parseInt_def number_of_def round_to_double_def is_ws_def is_digit_def digit_val_def Let_def)

text \<open>
  C4, as the code has it. When an addressed message is routed to \<open>delete\<close> with first
  argument \<open>a\<close>, its sender passes the authorization gate, and \<open>a\<close> without an optional
  leading \<open>#\<close> does not parse as a number, the bot replies to the channel with \<open>a\<close> in
  double quotes followed by \<open>is not a valid status ID.\<close>, and no call to the status
  service is made.
\<close>

theorem delete_invalid_id:
  assumes "dispatch E user channel message = Some (Invocation (Descriptor Delete) user channel m (a # rest))"
    and "trust E user"
    and "parseInt (if first_is CHR ''#'' a then tl a else a) = NaN"
  shows "on_message E user channel message
           = ([CheckUser user, Say channel ([CHR 0x22] @ a @ [CHR 0x22] @ '' is not a valid status ID.'')], None)
         \<and> list_all (\<lambda>x. case x of StatusDelete i u \<Rightarrow> False | _ \<Rightarrow> True) (fst (on_message E user channel message))"
  using assms by (simp add: on_message_def delete_func_def ifAuthorized_def delete_body_def Let_def)

theorem delete_invalid_id_witness:
  "on_message bot ''alice'' ''#standup'' ''bot: !delete abc''
     = ([CheckUser ''alice'', Say ''#standup'' ([CHR 0x22] @ ''abc'' @ [CHR 0x22] @ '' is not a valid status ID.'')], None)"
proof -
  have d: "dispatch bot ''alice'' ''#standup'' ''bot: !delete abc''
     = Some (Invocation (Descriptor Delete) ''alice'' ''#standup'' ''!delete abc'' (''abc'' # []))"
    by code_simp
  have t: "trust bot ''alice''"
    by (simp add: bot_def)
  have n: "parseInt (if first_is CHR ''#'' ''abc'' then tl ''abc'' else ''abc'') = NaN"
    by code_simp
  from delete_invalid_id [OF d t n] show ?thesis by simp
qed

text \<open>
  Against C4 as stated: the same message from a sender whom the authorization gate
  does not trust. The id does not parse, yet nothing is said to the channel: the check
  of the id is inside the gate.
\<close>

theorem delete_unauthorized_counterexample:
  "dispatch (bot\<lparr>trust := (\<lambda>nick. False)\<rparr>) ''mallory'' ''#standup'' ''bot: !delete abc''
     = Some (Invocation (Descriptor Delete) ''mallory'' ''#standup'' ''!delete abc'' [''abc''])
   \<and> parseInt ''abc'' = NaN
   \<and> on_message (bot\<lparr>trust := (\<lambda>nick. False)\<rparr>) ''mallory'' ''#standup'' ''bot: !delete abc''
     = ([CheckUser ''mallory''], None)"
  by code_simp

subsection \<open>Resolving a command name\<close>

text \<open>A name that is neither a key of the table nor a property every object inherits
  falls back to the default descriptor, whose handler answers the user.\<close>

lemma unknown_command_default:
  assumes "map_of commands cmd_name = None" and "cmd_name \<notin> set object_prototype_properties"
  shows "call_func E (lookup_command cmd_name) user channel message args
           = ([Say channel (user @ '': Huh? Try !help.'')], None)"
  using assms by (simp add: lookup_command_def default_func_def)

text \<open>A name that every object inherits is no key of the table, and what the lookup
  finds for it cannot be called as a handler.\<close>

lemma inherited_names_not_registered:
  "list_all (\<lambda>n. map_of commands n = None) object_prototype_properties"
  by code_simp

lemma inherited_name_not_callable:
  assumes "cmd_name \<in> set object_prototype_properties"
  shows "call_func E (lookup_command cmd_name) user channel message args = ([], Some (Raised TypeError))"
proof -
  from assms inherited_names_not_registered have "map_of commands cmd_name = None"
    by (simp add: list_all_iff)
  with assms show ?thesis by (simp add: lookup_command_def)
qed

text \<open>
  C5 fails on the code at \<open>bot: !constructor\<close>: \<open>constructor\<close> is no registered command,
  but \<open>commands['constructor']\<close> is the function every object inherits, so the fallback
  to \<open>commands['default']\<close> is not taken; the value has no \<open>func\<close>, the call raises a
  TypeError and nothing is said to the channel.
\<close>

theorem inherited_command_name_raises:
  "dispatch bot ''alice'' ''#standup'' ''bot: !constructor''
     = Some (Invocation (Inherited ''constructor'') ''alice'' ''#standup'' ''!constructor'' [])
   \<and> on_message bot ''alice'' ''#standup'' ''bot: !constructor'' = ([], Some (Raised TypeError))"
  by code_simp

subsection \<open>Messages without the command marker\<close>

text \<open>The no-break space is white space to \<open>trim\<close>: it is stripped from both ends of the
  text before the text is routed.\<close>

lemma no_break_space_is_trimmed:
  "dispatch bot ''alice'' ''#standup'' (''bot: botsnack'' @ [CHR 0xA0])
     = Some (Invocation (Descriptor Botsnack) ''alice'' ''#standup'' ''botsnack'' [])
   \<and> on_message bot ''alice'' ''#standup'' (''bot:'' @ [CHR 0xA0] @ ''!ping'')
     = ([Say ''#standup'' ''Pong!''], None)
   \<and> dispatch bot ''alice'' ''#standup'' (''bot: !delete abc'' @ [CHR 0xA0])
     = Some (Invocation (Descriptor Delete) ''alice'' ''#standup'' ''!delete abc'' [''abc''])"
  by code_simp

text \<open>
  C6. For every addressed message (the pattern matches, \<open>m\<close> is what its group captures)
  whose stripped text \<open>trim m\<close> does not start with \<open>!\<close>: if the text, lowercased, is
  \<open>botsnack\<close>, the botsnack handler is called, with no arguments; otherwise the status
  handler is called with the channel and the whole stripped text as its two arguments.
\<close>

theorem unmarked_message_routed:
  assumes "targetMessageRegex_exec (realNick E) message = Some m"
    and "\<not> first_is CHR ''!'' (trim m)"
  shows "dispatch E user channel message
           = Some (if toLowerCase (trim m) = ''botsnack''
                   then Invocation (Descriptor Botsnack) user channel (trim m) []
                   else Invocation (Descriptor Status) user channel (trim m) [channel, trim m])
         \<and> on_message E user channel message
           = (if toLowerCase (trim m) = ''botsnack''
              then botsnack_func E user channel (trim m) []
              else status_func E user channel (trim m) [channel, trim m])"
  using assms by (simp add: dispatch_def on_message_def Let_def)

theorem unmarked_message_routed_witness:
  "dispatch bot ''alice'' ''#standup'' ''bot: BotSnack ''
     = Some (Invocation (Descriptor Botsnack) ''alice'' ''#standup'' ''BotSnack'' [])
   \<and> dispatch bot ''alice'' ''#standup'' ''bot, fixed the build''
     = Some (Invocation (Descriptor Status) ''alice'' ''#standup'' ''fixed the build''
               [''#standup'', ''fixed the build''])"
proof -
  have m1: "targetMessageRegex_exec (realNick bot) ''bot: BotSnack '' = Some '' BotSnack ''"
    by code_simp
  have n1: "\<not> first_is CHR ''!'' (trim '' BotSnack '')"
    by code_simp
  have m2: "targetMessageRegex_exec (realNick bot) ''bot, fixed the build'' = Some '' fixed the build''"
    by code_simp
  have n2: "\<not> first_is CHR ''!'' (trim '' fixed the build'')"
    by code_simp
  have t1: "trim '' BotSnack '' = ''BotSnack''"
    by code_simp
  have t2: "trim '' fixed the build'' = ''fixed the build''"
    by code_simp
  have l1: "toLowerCase ''BotSnack'' = ''botsnack''"
    by code_simp
  have l2: "toLowerCase ''fixed the build'' \<noteq> ''botsnack''"
    by code_simp
  from unmarked_message_routed [OF m1 n1, of "''alice''" "''#standup''"]
       unmarked_message_routed [OF m2 n2, of "''alice''" "''#standup''"]
  show ?thesis by (simp add: t1 t2 l1 l2)
qed

subsection \<open>Being kicked\<close>

lemma kicked_bot_never_parts:
  "on_kick E channel (realNick E) by
     = ([LogInfo (''Kicked from '' @ channel @ '' by '' @ by @ ''.'')], Some (Raised TypeError))"
  by (simp add: on_kick_def apply_descriptor_def)

text \<open>
  C7 fails on the code when the bot itself is kicked: the listener logs the kick and
  then applies the descriptor of \<open>bye\<close> instead of its \<open>func\<close>, which raises a TypeError;
  nothing is said and no channel is parted. A kick of somebody else does nothing.
\<close>

theorem kicked_bot_raises:
  "on_kick bot ''#standup'' ''bot'' ''op''
     = ([LogInfo ''Kicked from #standup by op.''], Some (Raised TypeError))
   \<and> on_kick bot ''#standup'' ''carol'' ''op'' = ([], None)"
  by code_simp

subsection \<open>Errors of the transport\<close>

lemma on_error_skips_all_but_421:
  "rawCommand err \<noteq> ''421'' \<Longrightarrow> on_error err = ([], None)"
  by (simp add: on_error_def)

text \<open>
  C8 fails on the code: the listener returns at once for every error whose raw command
  is not 421, so such an error is not logged; the error it logs, with its stack, is
  421 itself.
\<close>

theorem other_error_not_logged:
  "on_error \<lparr>rawCommand = ''433'', stack = Some ''Error: nickname in use''\<rparr> = ([], None)
   \<and> on_error \<lparr>rawCommand = ''421'', stack = Some ''Error: unknown command''\<rparr>
     = ([LogErrorObject \<lparr>rawCommand = ''421'', stack = Some ''Error: unknown command''\<rparr>,
         LogError ''Error: unknown command''], None)"
  by code_simp

subsection \<open>Joining without a channel\<close>

text \<open>
  C9. Called with an empty argument list, the \<open>goto\<close> handler raises a TypeError in its
  own turn (it reads \<open>join[0]\<close> of the missing first argument), before any effect: no
  join is issued and nothing is said.
\<close>

theorem goto_without_argument_raises:
  "goto_func E user channel message [] = ([], Some (Raised TypeError))"
  by (simp add: goto_func_def)

subsection \<open>Notices\<close>

text \<open>
  C10. A notice is handed to the authorization manager if and only if its source,
  lowercased (an undefined source counting as the empty string), is \<open>nickserv\<close>; it is
  then handed over with that lowercased source and its text, and nothing else happens.
  A notice with an undefined source is logged and not handed over. A notice from any
  other source has no effect at all. The listener never raises.
\<close>

theorem notice_forwarding:
  "((\<exists>f t. AuthNotice f t \<in> set (fst (on_notice E from to text)))
      = (toLowerCase (case from of None \<Rightarrow> [] | Some s \<Rightarrow> s) = ''nickserv''))
   \<and> (toLowerCase (case from of None \<Rightarrow> [] | Some s \<Rightarrow> s) = ''nickserv'' \<longrightarrow>
        on_notice E from to text = ([AuthNotice ''nickserv'' text], None))
   \<and> on_notice E None to text = ([LogInfo (''Service Notice: '' @ text)], None)
   \<and> (toLowerCase s \<noteq> ''nickserv'' \<longrightarrow> on_notice E (Some s) to text = ([], None))
   \<and> snd (on_notice E from to text) = None"
  by (cases "from") (auto simp: on_notice_def Let_def toLowerCase_def)

theorem notice_forwarding_witness:
  "on_notice bot (Some ''NickServ'') ''bot'' ''alice ACC 3'' = ([AuthNotice ''nickserv'' ''alice ACC 3''], None)
   \<and> on_notice bot None ''bot'' ''Looking up your hostname''
     = ([LogInfo ''Service Notice: Looking up your hostname''], None)
   \<and> on_notice bot (Some ''irc.example.org'') ''bot'' ''alice ACC 3'' = ([], None)"
proof -
  have l1: "toLowerCase (case Some ''NickServ'' of None \<Rightarrow> [] | Some s \<Rightarrow> s) = ''nickserv''"
    by code_simp
  have l2: "toLowerCase ''irc.example.org'' \<noteq> ''nickserv''"
    by code_simp
  from notice_forwarding [of bot "Some ''NickServ''" "''bot''" "''alice ACC 3''" "''irc.example.org''"]
       notice_forwarding [of bot None "''bot''" "''Looking up your hostname''" "''irc.example.org''"]
       l1 l2
  show ?thesis by simp
qed

end
